theory Spec2Isabelle
  imports Main "HOL-Library.Sublist"
begin

section \<open>Strings as Python and pandas use them\<close>

text \<open>
  Column names and cell texts are \<open>string\<close>s. The pandas string methods of
  \<^verbatim>\<open>Util.sanitize_columns\<close> are called with single-character patterns (\<^verbatim>\<open>" "\<close>,
  \<^verbatim>\<open>"/"\<close>, \<^verbatim>\<open>"."\<close>), which pandas treats as literal text in every version.
\<close>

text \<open>\<^verbatim>\<open>s.replace(p, r)\<close> for a one-character pattern \<open>p\<close>.\<close>

definition str_replace1 :: "char \<Rightarrow> string \<Rightarrow> string \<Rightarrow> string" where
  "str_replace1 p r s = concat (map (\<lambda>c. if c = p then r else [c]) s)"

text \<open>
  \<^verbatim>\<open>str.lower()\<close> on ASCII texts: the letters \<open>A\<close> to \<open>Z\<close> (codes 65 to 90) move to
  \<open>a\<close> to \<open>z\<close>, every other ASCII character is kept. Python also lowers capital
  letters outside ASCII; a text with such characters is outside this model, and the
  statements that depend on the result of lowering are made for ASCII names
  (\<open>ascii_name\<close>).
\<close>

definition lower_char :: "char \<Rightarrow> char" where
  "lower_char c =
     (let n = (of_char c :: nat) in if 65 \<le> n \<and> n \<le> 90 then char_of (n + 32) else c)"

definition str_lower :: "string \<Rightarrow> string" where
  "str_lower s = map lower_char s"

definition ascii_name :: "string \<Rightarrow> bool" where
  "ascii_name s = list_all (\<lambda>c. (of_char c :: nat) < 128) s"

section \<open>Data frames\<close>

text \<open>
  A cell is either missing (\<open>None\<close>: pandas' NaN and Python's None) or a value, given
  by the text that \<^verbatim>\<open>str()\<close> prints for it. A data frame has its column labels in
  order and its rows, each row holding one cell per column.
\<close>

type_synonym cell = "string option"

record dataframe =
  columns :: "string list"
  rows :: "cell list list"

section \<open>Util.sanitize_columns\<close>

text \<open>
  \<^verbatim>\<open>
  df.columns = df.columns.str.replace(" ", "_").str.lower()
  df.columns = df.columns.str.replace("/", "")
  df.columns = df.columns.str.replace(".", "")
  return df
  \<close>
\<close>

definition sanitize_name :: "string \<Rightarrow> string" where
  "sanitize_name s =
     str_replace1 (CHR ''.'') [] (str_replace1 (CHR ''/'') []
       (str_lower (str_replace1 (CHR '' '') ''_'' s)))"

definition sanitize_columns :: "dataframe \<Rightarrow> dataframe" where
  "sanitize_columns df = df\<lparr>columns := map sanitize_name (columns df)\<rparr>"

text \<open>
  The canonical form the specification describes: no upper-case letter, no space, no
  slash and no period in the name.
\<close>

definition canonical_name :: "string \<Rightarrow> bool" where
  "canonical_name s =
     list_all (\<lambda>c. c \<noteq> CHR '' '' \<and> c \<noteq> CHR ''/'' \<and> c \<noteq> CHR ''.'' \<and> lower_char c = c) s"

section \<open>More string operations\<close>

text \<open>
  \<^verbatim>\<open>sep.join(xs)\<close> and \<^verbatim>\<open>s.split(d)\<close> for a one-character delimiter: a text with
  \<open>n\<close> delimiters splits into \<open>n + 1\<close> fields, and the empty text into one empty field.
\<close>

fun str_join :: "string \<Rightarrow> string list \<Rightarrow> string" where
  "str_join sep [] = []"
| "str_join sep [x] = x"
| "str_join sep (x # y # ys) = x @ sep @ str_join sep (y # ys)"

fun str_split :: "char \<Rightarrow> string \<Rightarrow> string list" where
  "str_split d [] = [[]]"
| "str_split d (c # cs) =
     (if c = d then [] # str_split d cs
      else (case str_split d cs of [] \<Rightarrow> [[c]] | w # ws \<Rightarrow> (c # w) # ws))"

section \<open>Selecting columns\<close>

text \<open>
  \<^verbatim>\<open>df[labels]\<close> with a list of labels: for each label in turn, every column of the
  frame that carries it (one column when the frame's labels are unique).
\<close>

definition select_cells :: "string list \<Rightarrow> cell list \<Rightarrow> string list \<Rightarrow> cell list" where
  "select_cells names row labels =
     concat (map (\<lambda>l. map snd (filter (\<lambda>(c, v). c = l) (zip names row))) labels)"

definition select_columns :: "dataframe \<Rightarrow> string list \<Rightarrow> dataframe" where
  "select_columns df labels =
     \<lparr>columns = concat (map (\<lambda>l. filter (\<lambda>c. c = l) (columns df)) labels),
      rows = map (\<lambda>row. select_cells (columns df) row labels) (rows df)\<rparr>"

text \<open>\<^verbatim>\<open>df.empty\<close>: one of the two axes has length zero.\<close>

definition empty_frame :: "dataframe \<Rightarrow> bool" where
  "empty_frame df = (columns df = [] \<or> rows df = [])"

section \<open>Exceptions\<close>

datatype value_error = NoMatchingColumns string | RowLengthMismatch

text \<open>
  The exceptions of a run: the two \<^verbatim>\<open>ValueError\<close>s that \<^verbatim>\<open>import_func\<close> raises, an
  error of the database driver, an error raised by the pandas code of an importer, and
  the failure of \<^verbatim>\<open>pd.read_csv\<close>.
\<close>

datatype error = ValueError value_error | DatabaseError | ReshapeError | ReadError

section \<open>The wide-to-long melters\<close>

text \<open>
  \<^verbatim>\<open>_import_budget_rad\<close> picks
  \<^verbatim>\<open>[col for col in df_split.columns if "rad" in col and "description" not in col]\<close>,
  \<^verbatim>\<open>_import_journal_entry\<close> picks
  \<^verbatim>\<open>[col for col in df_split.columns if "RAD" in col and "Description" not in col]\<close>.
  Python's \<^verbatim>\<open>in\<close> on texts is the substring test. The column \<^verbatim>\<open>id\<close> that both
  importers add matches neither.
\<close>

definition rad_columns :: "string list \<Rightarrow> string list" where
  "rad_columns names =
     filter (\<lambda>col. sublist ''rad'' col \<and> \<not> sublist ''description'' col) names"

definition RAD_columns :: "string list \<Rightarrow> string list" where
  "RAD_columns names =
     filter (\<lambda>col. sublist ''RAD'' col \<and> \<not> sublist ''Description'' col) names"

text \<open>
  The values of the picked columns in one row that are not missing, in column order:
  \<^verbatim>\<open>[str(x) for x in row if not pd.isna(x)]\<close>.
\<close>

definition category_values :: "string list \<Rightarrow> string list \<Rightarrow> cell list \<Rightarrow> string list" where
  "category_values cols names row = concat (map (\<lambda>v. case v of None \<Rightarrow> [] | Some s \<Rightarrow> [s])
     (select_cells names row cols))"

text \<open>
  One row of the input: the values are joined with \<^verbatim>\<open>|\<close> into \<^verbatim>\<open>Combined\<close>, split
  again, exploded to one output row per field, and the rows whose field is the empty text
  are dropped (\<^verbatim>\<open>replace("", NaN)\<close>, \<^verbatim>\<open>dropna\<close>). Each output row carries the input
  row's \<^verbatim>\<open>id\<close>.
\<close>

definition explode_row :: "string list \<Rightarrow> string list \<Rightarrow> nat \<Rightarrow> cell list \<Rightarrow> (nat \<times> string) list" where
  "explode_row cols names i row =
     map (Pair i) (filter (\<lambda>v. v \<noteq> [])
       (str_split (CHR ''|'') (str_join ''|'' (category_values cols names row))))"

text \<open>The whole frame; \<^verbatim>\<open>df["id"] = df.index + 1\<close> numbers the rows from one.\<close>

definition melt :: "string list \<Rightarrow> dataframe \<Rightarrow> (nat \<times> string) list" where
  "melt cols df =
     concat (map (\<lambda>(i, row). explode_row cols (columns df) (i + 1) row) (enumerate 0 (rows df)))"

text \<open>
  pandas does not melt every frame. With two columns of one label it raises a
  \<^verbatim>\<open>ValueError\<close>: at the assignment \<^verbatim>\<open>df_split[cols] = ...\<close> when the label is a category
  column, in \<^verbatim>\<open>explode\<close> otherwise. On a frame without rows \<^verbatim>\<open>Combined\<close> is not a column
  of texts, and \<^verbatim>\<open>df_split["Combined"].str\<close> raises an \<^verbatim>\<open>AttributeError\<close>.
\<close>

definition melt_frame :: "string list \<Rightarrow> dataframe \<Rightarrow> error + (nat \<times> string) list" where
  "melt_frame cols df =
     (if distinct (columns df) \<and> rows df \<noteq> [] then Inr (melt cols df) else Inl ReshapeError)"

text \<open>
  \<^verbatim>\<open>df.columns = Util.sanitize_columns(df)\<close>, the statement of \<^verbatim>\<open>_import_budget\<close> (line
  215), \<^verbatim>\<open>_import_journal_entry_rad\<close> (line 236), \<^verbatim>\<open>_import_journal_entry\<close> (line 283),
  \<^verbatim>\<open>_import_rad\<close> (line 321) and \<^verbatim>\<open>_import_business_unit\<close> (line 353).
  \<^verbatim>\<open>Util.sanitize_columns\<close> renames the labels in place and returns the frame, so the
  statement assigns the frame itself as its labels. pandas raises a \<^verbatim>\<open>ValueError\<close>
  (length mismatch) unless the frame has as many rows as columns; in that case the rows
  become the labels, and the next lookup of a column by its name, which each of the five
  importers makes (lines 219, 239, 285, 322, 355), raises a \<^verbatim>\<open>KeyError\<close>. Either way an
  exception leaves the importer, and the statements after it are never reached.
\<close>

definition assign_frame_to_columns :: "dataframe \<Rightarrow> error + dataframe" where
  "assign_frame_to_columns df = Inl ReshapeError"

text \<open>
  The result of \<^verbatim>\<open>_import_budget_rad\<close> before the load, as pairs
  (\<^verbatim>\<open>budget_id\<close>, \<^verbatim>\<open>rad_id\<close>).
\<close>

definition melt_budget_rad :: "dataframe \<Rightarrow> error + (nat \<times> string) list" where
  "melt_budget_rad raw =
     (let df = sanitize_columns raw in melt_frame (rad_columns (columns df)) df)"

text \<open>
  The result of \<^verbatim>\<open>_import_journal_entry\<close> before the load, as pairs
  (\<^verbatim>\<open>journal_entry_id\<close>, \<^verbatim>\<open>rad_id\<close>): line 283 comes first, and the columns are
  picked after \<^verbatim>\<open>Util.sanitize_columns(df)\<close> has renamed them.
\<close>

definition melt_journal_entry_rad :: "dataframe \<Rightarrow> error + (nat \<times> string) list" where
  "melt_journal_entry_rad raw =
     (case assign_frame_to_columns (sanitize_columns raw) of
        Inl err \<Rightarrow> Inl err
      | Inr df \<Rightarrow> melt_frame (RAD_columns (columns df)) df)"

text \<open>
  \<^verbatim>\<open>_import_budget\<close> and \<^verbatim>\<open>_import_journal_entry_rad\<close> up to the statement that raises
  (lines 214 to 215 and 234 to 236). The statements after it, among them the coercions of
  \<^verbatim>\<open>account_no\<close>, \<^verbatim>\<open>business_unit_id\<close>, \<^verbatim>\<open>company_id\<close> and \<^verbatim>\<open>amount\<close> (lines 220, 221
  and 254 to 267), are never reached.
\<close>

definition import_budget_frame :: "dataframe \<Rightarrow> error + dataframe" where
  "import_budget_frame raw = assign_frame_to_columns (sanitize_columns raw)"

definition import_journal_entry_frame :: "dataframe \<Rightarrow> error + dataframe" where
  "import_journal_entry_frame raw = assign_frame_to_columns (sanitize_columns raw)"

section \<open>Util.import_func\<close>

datatype log_record = Info string | Exception string error

text \<open>
  What the database answers: the rows of the introspection query
  \<^verbatim>\<open>SELECT column_name FROM information_schema.columns WHERE table_name = %s\<close>, and
  whether it refuses a bulk insert.
\<close>

record database =
  information_schema :: "string \<Rightarrow> string list"
  refuses :: "string \<Rightarrow> cell list list \<Rightarrow> bool"

text \<open>
  What a run changes: the \<^verbatim>\<open>executemany\<close> calls made, the number of commits, the log
  file, and (for the statements about the order of a run) the importers called so far.
\<close>

datatype importer =
    Import_account | Import_rad_type | Import_rad | Import_business_unit
  | Import_account_rad_type | Import_budget | Import_budget_rad | Import_journal_entry
  | Import_journal_entry_rad | Import_budget_entry_admin_view

record run =
  executed :: "(string \<times> cell list list) list"
  commits :: nat
  log :: "log_record list"
  invoked :: "importer list"

definition insert_query :: "string \<Rightarrow> string list \<Rightarrow> string" where
  "insert_query table cols =
     ''INSERT INTO '' @ table @ '' ('' @ str_join '', '' cols @ '') VALUES ('' @
     str_join '', '' (replicate (length cols) ''%s'') @ '')''"

text \<open>\<^verbatim>\<open>df.replace({np.nan: None})\<close> and \<^verbatim>\<open>df.replace({"": None})\<close>.\<close>

definition replace_null :: "dataframe \<Rightarrow> dataframe" where
  "replace_null df =
     df\<lparr>rows := map (map (\<lambda>v. case v of None \<Rightarrow> None | Some s \<Rightarrow> if s = [] then None else Some s))
       (rows df)\<rparr>"

text \<open>The \<^verbatim>\<open>except\<close> clause: the error is logged and raised again.\<close>

definition log_and_raise :: "string \<Rightarrow> error \<Rightarrow> run \<Rightarrow> (error + unit) \<times> run" where
  "log_and_raise table e st =
     (Inl e, st\<lparr>log := log st @ [Exception (''Error importing data into '' @ table) e]\<rparr>)"

text \<open>\<^verbatim>\<open>df[[col for col in df.columns if col in table_columns]]\<close>.\<close>

definition project :: "string set \<Rightarrow> dataframe \<Rightarrow> dataframe" where
  "project table_columns df =
     select_columns df (filter (\<lambda>col. col \<in> table_columns) (columns df))"

text \<open>
  The body of \<^verbatim>\<open>import_func\<close>, in the order of the source: introspect, project, replace
  the null markers, refuse an empty frame, build the statement and the tuples, compare the
  first tuple's length with the number of columns, \<^verbatim>\<open>executemany\<close>, \<^verbatim>\<open>commit\<close>, log.
  Every exception passes through the \<^verbatim>\<open>except\<close> clause. The introspection query is
  taken to answer; a table the database does not have answers with no rows.
\<close>

definition import_func :: "database \<Rightarrow> dataframe \<Rightarrow> string \<Rightarrow> run \<Rightarrow> (error + unit) \<times> run" where
  "import_func db df0 table st =
     (let table_columns = set (information_schema db table);
          df = project table_columns df0;
          df = replace_null df
      in if empty_frame df then log_and_raise table (ValueError (NoMatchingColumns table)) st
         else
           let query = insert_query table (columns df);
               tuples = rows df
           in if length (hd tuples) \<noteq> length (columns df)
              then log_and_raise table (ValueError RowLengthMismatch) st
              else
                let st1 = st\<lparr>executed := executed st @ [(query, tuples)]\<rparr>
                in if refuses db query tuples then log_and_raise table DatabaseError st1
                   else (Inr (), st1\<lparr>commits := Suc (commits st1),
                           log := log st1 @ [Info (''Data imported into '' @ table @ '' successfully.'')]\<rparr>))"

section \<open>The importers and Migration.import_all\<close>

text \<open>The table each importer loads: its \<^verbatim>\<open>table = "..."\<close> line.\<close>

fun table :: "importer \<Rightarrow> string" where
  "table Import_account = ''account''"
| "table Import_rad_type = ''rad_type''"
| "table Import_rad = ''rad''"
| "table Import_business_unit = ''business_unit''"
| "table Import_account_rad_type = ''account_rad_type''"
| "table Import_budget = ''budget''"
| "table Import_budget_rad = ''budget_rad''"
| "table Import_journal_entry = ''journal_entry_rad''"
| "table Import_journal_entry_rad = ''journal_entry''"
| "table Import_budget_entry_admin_view = ''budget_entry_admin_view''"

text \<open>
  The extracts each importer reads, in order, each with the message logged when it was
  read and the head of the message logged when reading failed.
\<close>

fun extracts :: "importer \<Rightarrow> (string \<times> string \<times> string) list" where
  "extracts Import_account =
     [(''./source/Account.csv'', ''Account data read from CSV.'', ''Error Account CSV''),
      (''./source/AccountOwnership.csv'', ''Account data read from CSV.'', ''Error Account CSV'')]"
| "extracts Import_rad_type =
     [(''./source/Rad.csv'', ''RAD data read from CSV.'', ''Error reading RAD CSV'')]"
| "extracts Import_rad =
     [(''./source/Rad.csv'', ''RAD data read from CSV.'', ''Error reading RAD CSV'')]"
| "extracts Import_business_unit =
     [(''./source/BusinessUnit.csv'', ''Business Unit data read from CSV.'',
       ''Error reading Business Unit CSV'')]"
| "extracts Import_account_rad_type =
     [(''./source/Rad_Account.csv'', ''RAD Account data read from CSV.'', ''Error RAD Account CSV'')]"
| "extracts Import_budget =
     [(''./source/Budget.csv'', ''Budget data read from CSV.'', ''Error reading Budget CSV'')]"
| "extracts Import_budget_rad =
     [(''./source/budget.csv'', ''Budget RAD data read from CSV.'', ''Error reading Budget RAD CSV'')]"
| "extracts Import_journal_entry =
     [(''./source/JournalEntry.csv'', ''Journal Entry read from CSV.'',
       ''Error reading Journal Entry CSV'')]"
| "extracts Import_journal_entry_rad =
     [(''./source/JournalEntry.csv'', ''Journal Entry read from CSV.'',
       ''Error reading Journal Entry CSV'')]"
| "extracts Import_budget_entry_admin_view =
     [(''./source/BudgetEntryAdminView.csv'', ''Budget Entry Admin View data read from CSV.'',
       ''Error reading Budget Entry Admin View CSV'')]"

text \<open>
  The surroundings of a run: which extracts \<^verbatim>\<open>pd.read_csv\<close> can read, what the pandas
  code of an importer (with the query of \<^verbatim>\<open>_import_account_rad_type\<close>) makes of them,
  that is the dataset it hands to \<^verbatim>\<open>Util.import_func\<close> or an exception, and the
  database. The field \<open>reshaped\<close> is consulted only for the importers whose pandas code
  can get as far as the load.
\<close>

record env =
  readable :: "string \<Rightarrow> bool"
  reshaped :: "importer \<Rightarrow> error + dataframe"
  db :: database

text \<open>
  Each \<^verbatim>\<open>pd.read_csv\<close> sits in its own \<^verbatim>\<open>try\<close>: on failure the importer logs the
  exception and returns.
\<close>

fun read_csvs :: "(string \<Rightarrow> bool) \<Rightarrow> (string \<times> string \<times> string) list \<Rightarrow> run \<Rightarrow> bool \<times> run" where
  "read_csvs rd [] st = (True, st)"
| "read_csvs rd ((path, done, failed) # fs) st =
     (if rd path then read_csvs rd fs (st\<lparr>log := log st @ [Info done]\<rparr>)
      else (False, st\<lparr>log := log st @ [Exception failed ReadError]\<rparr>))"

text \<open>
  The five importers whose first statement after the read is
  \<^verbatim>\<open>df.columns = Util.sanitize_columns(df)\<close> (\<open>assign_frame_to_columns\<close>): whatever the
  extract holds, their pandas code raises. For the other five the surroundings say what
  it yields.
\<close>

fun assigns_frame :: "importer \<Rightarrow> bool" where
  "assigns_frame Import_rad = True"
| "assigns_frame Import_business_unit = True"
| "assigns_frame Import_budget = True"
| "assigns_frame Import_journal_entry = True"
| "assigns_frame Import_journal_entry_rad = True"
| "assigns_frame Import_account = False"
| "assigns_frame Import_rad_type = False"
| "assigns_frame Import_account_rad_type = False"
| "assigns_frame Import_budget_rad = False"
| "assigns_frame Import_budget_entry_admin_view = False"

definition reshape :: "env \<Rightarrow> importer \<Rightarrow> error + dataframe" where
  "reshape e i = (if assigns_frame i then Inl ReshapeError else reshaped e i)"

text \<open>
  One importer: read, reshape, load. Nothing after the reads is inside a \<^verbatim>\<open>try\<close>, so
  an exception of the pandas code or of \<^verbatim>\<open>Util.import_func\<close> leaves the importer.
\<close>

definition run_importer :: "env \<Rightarrow> importer \<Rightarrow> run \<Rightarrow> (error + unit) \<times> run" where
  "run_importer e i st =
     (case read_csvs (readable e) (extracts i) (st\<lparr>invoked := invoked st @ [i]\<rparr>) of
        (False, st1) \<Rightarrow> (Inr (), st1)
      | (True, st1) \<Rightarrow>
          (case reshape e i of
             Inl err \<Rightarrow> (Inl err, st1)
           | Inr df \<Rightarrow> import_func (db e) df (table i) st1))"

text \<open>
  The body of \<^verbatim>\<open>import_all\<close>: one \<^verbatim>\<open>try\<close> around the ten calls and the final
  message; the \<^verbatim>\<open>except\<close> clause logs and does not raise again.
\<close>

fun try_importers :: "env \<Rightarrow> importer list \<Rightarrow> run \<Rightarrow> run" where
  "try_importers e [] st = st\<lparr>log := log st @ [Info ''All data imported successfully.'']\<rparr>"
| "try_importers e (i # is) st =
     (case run_importer e i st of
        (Inl err, st1) \<Rightarrow> st1\<lparr>log := log st1 @ [Exception ''Error during import_all'' err]\<rparr>
      | (Inr u, st1) \<Rightarrow> try_importers e is st1)"

definition import_sequence :: "importer list" where
  "import_sequence =
     [Import_account, Import_rad_type, Import_rad, Import_business_unit,
      Import_account_rad_type, Import_budget, Import_budget_rad, Import_journal_entry,
      Import_journal_entry_rad, Import_budget_entry_admin_view]"

definition import_all :: "env \<Rightarrow> run \<Rightarrow> run" where
  "import_all e st = try_importers e import_sequence st"

text \<open>
  Whether an importer ends with an exception. The outcome of an importer is decided by
  its surroundings, not by the state of the run in which it is called, so it is read off
  a call in a fresh run.
\<close>

definition fresh_run :: run where
  "fresh_run = \<lparr>executed = [], commits = 0, log = [], invoked = []\<rparr>"


section \<open>Properties of the column normalizer\<close>

lemma lower_char_idem: "lower_char (lower_char c) = lower_char c"
proof -
  let ?n = "of_char c :: nat"
  show ?thesis
  proof (cases "65 \<le> ?n \<and> ?n \<le> 90")
    case True
    then have "of_char (char_of (?n + 32) :: char) = ?n + 32"
      by simp
    with True show ?thesis
      by (simp add: lower_char_def Let_def)
  next
    case False
    then show ?thesis
      by (auto simp: lower_char_def Let_def)
  qed
qed

lemma lower_char_not_special:
  assumes "c \<noteq> CHR '' ''"
  shows "lower_char c \<noteq> CHR '' ''"
proof (cases "65 \<le> (of_char c :: nat) \<and> (of_char c :: nat) \<le> 90")
  case True
  then have "of_char (lower_char c) = (of_char c :: nat) + 32"
    by (simp add: lower_char_def Let_def)
  with True have "(of_char (lower_char c) :: nat) \<noteq> 32"
    by simp
  then show ?thesis
    by auto
next
  case False
  with assms show ?thesis
    by (auto simp: lower_char_def Let_def)
qed

lemma str_replace1_delete: "str_replace1 p [] s = filter (\<lambda>c. c \<noteq> p) s"
  by (induction s) (simp_all add: str_replace1_def)

lemma str_replace1_absent: "p \<notin> set s \<Longrightarrow> str_replace1 p r s = s"
  by (induction s) (auto simp: str_replace1_def)

lemma space_replaced: "CHR '' '' \<notin> set (str_replace1 (CHR '' '') ''_'' s)"
  by (induction s) (simp_all add: str_replace1_def)

lemma canonical_sanitize_name: "canonical_name (sanitize_name s)"
proof -
  let ?u = "str_replace1 (CHR '' '') ''_'' s"
  have "\<forall>c \<in> set ?u. c \<noteq> CHR '' ''"
    using space_replaced [of s] by blast
  then have "\<forall>c \<in> set (str_lower ?u). c \<noteq> CHR '' '' \<and> lower_char c = c"
    by (auto simp: str_lower_def lower_char_idem lower_char_not_special)
  then show ?thesis
    by (auto simp: canonical_name_def sanitize_name_def str_replace1_delete list_all_iff)
qed

lemma sanitize_name_canonical:
  assumes "canonical_name s"
  shows "sanitize_name s = s"
proof -
  from assms have a: "CHR '' '' \<notin> set s" "CHR ''/'' \<notin> set s" "CHR ''.'' \<notin> set s"
    and l: "\<forall>c \<in> set s. lower_char c = c"
    by (auto simp: canonical_name_def list_all_iff)
  from l have "str_lower s = s"
    by (simp add: str_lower_def map_idI)
  with a show ?thesis
    by (simp add: sanitize_name_def str_replace1_absent)
qed

lemma lower_char_ascii: "(of_char c :: nat) < 128 \<Longrightarrow> (of_char (lower_char c) :: nat) < 128"
  by (auto simp: lower_char_def Let_def)

lemma ascii_sanitize_name:
  assumes "ascii_name s"
  shows "ascii_name (sanitize_name s)"
proof -
  from assms have "\<forall>c \<in> set s. (of_char c :: nat) < 128"
    by (simp add: ascii_name_def list_all_iff)
  then have "\<forall>c \<in> set (str_replace1 (CHR '' '') ''_'' s). (of_char c :: nat) < 128"
    by (auto simp: str_replace1_def split: if_splits)
  then have "\<forall>c \<in> set (str_lower (str_replace1 (CHR '' '') ''_'' s)). (of_char c :: nat) < 128"
    by (auto simp: str_lower_def lower_char_ascii)
  then show ?thesis
    by (auto simp: ascii_name_def sanitize_name_def str_replace1_delete list_all_iff)
qed

text \<open>
  C9. The column normalizer is idempotent on frames with ASCII column names, where
  \<open>lower_char\<close> is Python's \<^verbatim>\<open>str.lower\<close>: the sanitized names are ASCII again, a
  frame whose column names are all already in canonical form is returned with every
  column name unchanged, and normalizing the result of a normalization changes nothing.
\<close>

theorem sanitize_columns_idempotent:
  assumes "list_all ascii_name (columns df)"
  shows "list_all ascii_name (columns (sanitize_columns df)) \<and>
   (list_all canonical_name (columns df) \<longrightarrow> sanitize_columns df = df) \<and>
   sanitize_columns (sanitize_columns df) = sanitize_columns df"
proof -
  have fixed: "sanitize_columns d = d" if "list_all canonical_name (columns d)" for d :: dataframe
  proof -
    from that have "map sanitize_name (columns d) = columns d"
      by (simp add: list_all_iff map_idI sanitize_name_canonical)
    then show ?thesis
      by (simp add: sanitize_columns_def)
  qed
  have "list_all canonical_name (columns (sanitize_columns df))"
    by (simp add: sanitize_columns_def list_all_iff canonical_sanitize_name)
  then have "sanitize_columns (sanitize_columns df) = sanitize_columns df"
    by (rule fixed)
  moreover from assms have "list_all ascii_name (columns (sanitize_columns df))"
    by (simp add: sanitize_columns_def list_all_iff ascii_sanitize_name)
  ultimately show ?thesis
    using fixed by blast
qed

theorem sanitize_columns_idempotent_witness:
  "list_all ascii_name (columns \<lparr>columns = [''account_no'', ''rad_1''], rows = []\<rparr>) \<and>
   list_all canonical_name (columns \<lparr>columns = [''account_no'', ''rad_1''], rows = []\<rparr>) \<and>
   sanitize_columns \<lparr>columns = [''account_no'', ''rad_1''], rows = []\<rparr> =
     \<lparr>columns = [''account_no'', ''rad_1''], rows = []\<rparr> \<and>
   sanitize_columns (sanitize_columns \<lparr>columns = [''account_no'', ''rad_1''], rows = []\<rparr>) =
     sanitize_columns \<lparr>columns = [''account_no'', ''rad_1''], rows = []\<rparr>"
proof -
  have a: "list_all ascii_name (columns \<lparr>columns = [''account_no'', ''rad_1''], rows = []\<rparr>)"
    by (simp add: ascii_name_def)
  have c: "list_all canonical_name (columns \<lparr>columns = [''account_no'', ''rad_1''], rows = []\<rparr>)"
    by (simp add: canonical_name_def lower_char_def Let_def)
  from sanitize_columns_idempotent [OF a] a c
  show ?thesis
    by blast
qed

section \<open>Properties of the bulk loader\<close>


lemma columns_project: "set (columns (project S df)) = set (columns df) \<inter> S"
  by (auto simp: project_def select_columns_def)

lemma columns_replace_null: "columns (replace_null df) = columns df"
  by (simp add: replace_null_def)

lemma rows_replace_null_empty: "(rows (replace_null df) = []) = (rows df = [])"
  by (simp add: replace_null_def)

lemma rows_project_empty: "(rows (project S df) = []) = (rows df = [])"
  by (simp add: project_def select_columns_def)

lemma empty_frame_loaded:
  "empty_frame (replace_null (project S df)) = (set (columns df) \<inter> S = {} \<or> rows df = [])"
proof -
  have "(columns (project S df) = []) = (set (columns df) \<inter> S = {})"
    using columns_project [of S df] by (metis set_empty)
  then show ?thesis
    by (simp add: empty_frame_def columns_replace_null rows_replace_null_empty rows_project_empty)
qed

text \<open>
  C6. The columns the loader inserts are exactly the columns of the dataset that the
  introspected schema has as well: the projection keeps a column if and only if its label
  is in both, and a load that succeeds has executed one insert statement built from the
  projected columns, with the projected rows.
\<close>

theorem import_func_projects:
  "set (columns (project S df)) = set (columns df) \<inter> S \<and>
   (import_func d df t st = (Inr u, st') \<longrightarrow>
      executed st' = executed st @
        [(insert_query t (columns (project (set (information_schema d t)) df)),
          rows (replace_null (project (set (information_schema d t)) df)))])"
proof -
  have "executed st' = executed st @
        [(insert_query t (columns (project (set (information_schema d t)) df)),
          rows (replace_null (project (set (information_schema d t)) df)))]"
    if "import_func d df t st = (Inr u, st')"
    using that
    by (auto simp: import_func_def Let_def log_and_raise_def columns_replace_null
        split: if_splits)
  then show ?thesis
    using columns_project by blast
qed

text \<open>
  C7. When no column of the dataset is a column of the target table, the loader raises the
  \<^verbatim>\<open>ValueError\<close> "No matching columns to import into table ..." (the specification's
  EmptyProjection), after logging it; no insert statement is executed and nothing is
  committed.
\<close>

theorem import_func_empty_projection:
  assumes "set (columns df) \<inter> set (information_schema d t) = {}"
  shows "import_func d df t st =
      (Inl (ValueError (NoMatchingColumns t)),
       st\<lparr>log := log st @
         [Exception (''Error importing data into '' @ t) (ValueError (NoMatchingColumns t))]\<rparr>) \<and>
    executed (snd (import_func d df t st)) = executed st \<and>
    commits (snd (import_func d df t st)) = commits st"
  using assms by (simp add: import_func_def Let_def empty_frame_loaded log_and_raise_def)

text \<open>
  C10. A dataset without rows makes the loader raise the same error, with no insert and no
  commit, whatever its columns are: \<^verbatim>\<open>df.empty\<close> holds as soon as one axis is empty.
\<close>

theorem import_func_no_rows:
  assumes "rows df = []"
  shows "import_func d df t st =
      (Inl (ValueError (NoMatchingColumns t)),
       st\<lparr>log := log st @
         [Exception (''Error importing data into '' @ t) (ValueError (NoMatchingColumns t))]\<rparr>) \<and>
    executed (snd (import_func d df t st)) = executed st \<and>
    commits (snd (import_func d df t st)) = commits st"
  using assms by (simp add: import_func_def Let_def empty_frame_loaded log_and_raise_def)


theorem import_func_projects_witness:
  "import_func \<lparr>information_schema = (\<lambda>t. [''id'', ''name'']), refuses = (\<lambda>q r. False)\<rparr>
     \<lparr>columns = [''id'', ''name'', ''extra''], rows = [[Some ''1'', Some ''a'', Some ''x'']]\<rparr>
     ''t'' \<lparr>executed = [], commits = 0, log = [], invoked = []\<rparr> =
   (Inr (), \<lparr>executed = [(''INSERT INTO t (id, name) VALUES (%s, %s)'', [[Some ''1'', Some ''a'']])],
      commits = 1, log = [Info ''Data imported into t successfully.''], invoked = []\<rparr>) \<and>
   set (columns (project {''id'', ''name''}
     \<lparr>columns = [''id'', ''name'', ''extra''], rows = [[Some ''1'', Some ''a'', Some ''x'']]\<rparr>)) =
   {''id'', ''name''}"
proof -
  let ?d = "\<lparr>information_schema = (\<lambda>t. [''id'', ''name'']), refuses = (\<lambda>q r. False)\<rparr>"
  let ?df = "\<lparr>columns = [''id'', ''name'', ''extra''], rows = [[Some ''1'', Some ''a'', Some ''x'']]\<rparr>"
  let ?st = "\<lparr>executed = [], commits = 0, log = [], invoked = []\<rparr>"
  let ?st' = "\<lparr>executed = [(''INSERT INTO t (id, name) VALUES (%s, %s)'', [[Some ''1'', Some ''a'']])],
      commits = 1, log = [Info ''Data imported into t successfully.''], invoked = []\<rparr>"
  have run: "import_func ?d ?df ''t'' ?st = (Inr (), ?st')"
    by (simp add: import_func_def Let_def project_def select_columns_def select_cells_def
        replace_null_def empty_frame_def insert_query_def)
  from import_func_projects [of "{''id'', ''name''}" ?df ?d "''t''" ?st "()" ?st'] run
  show ?thesis
    by auto
qed

theorem import_func_empty_projection_witness:
  "set (columns \<lparr>columns = [''Account No'', ''Amount''], rows = [[Some ''1'', Some ''2'']]\<rparr>) \<inter>
     set (information_schema
       \<lparr>information_schema = (\<lambda>t. [''account_no'', ''amount'']), refuses = (\<lambda>q r. False)\<rparr>
       ''budget'') = {} \<and>
   import_func \<lparr>information_schema = (\<lambda>t. [''account_no'', ''amount'']), refuses = (\<lambda>q r. False)\<rparr>
     \<lparr>columns = [''Account No'', ''Amount''], rows = [[Some ''1'', Some ''2'']]\<rparr>
     ''budget'' \<lparr>executed = [], commits = 0, log = [], invoked = []\<rparr> =
   (Inl (ValueError (NoMatchingColumns ''budget'')),
    \<lparr>executed = [], commits = 0,
      log = [Exception ''Error importing data into budget'' (ValueError (NoMatchingColumns ''budget''))],
      invoked = []\<rparr>)"
proof -
  let ?d = "\<lparr>information_schema = (\<lambda>t. [''account_no'', ''amount'']), refuses = (\<lambda>q r. False)\<rparr>"
  let ?df = "\<lparr>columns = [''Account No'', ''Amount''], rows = [[Some ''1'', Some ''2'']]\<rparr>"
  let ?st = "\<lparr>executed = [], commits = 0, log = [], invoked = []\<rparr>"
  have disjoint: "set (columns ?df) \<inter> set (information_schema ?d ''budget'') = {}"
    by simp
  from import_func_empty_projection [OF disjoint, of ?st] disjoint
  show ?thesis
    by simp
qed

theorem import_func_no_rows_witness:
  "rows \<lparr>columns = [''id'', ''name''], rows = []\<rparr> = [] \<and>
   set (columns \<lparr>columns = [''id'', ''name''], rows = []\<rparr>) \<inter> {''id'', ''name''} = {''id'', ''name''} \<and>
   import_func \<lparr>information_schema = (\<lambda>t. [''id'', ''name'']), refuses = (\<lambda>q r. False)\<rparr>
     \<lparr>columns = [''id'', ''name''], rows = []\<rparr>
     ''rad'' \<lparr>executed = [], commits = 0, log = [], invoked = []\<rparr> =
   (Inl (ValueError (NoMatchingColumns ''rad'')),
    \<lparr>executed = [], commits = 0,
      log = [Exception ''Error importing data into rad'' (ValueError (NoMatchingColumns ''rad''))],
      invoked = []\<rparr>)"
proof -
  let ?d = "\<lparr>information_schema = (\<lambda>t. [''id'', ''name'']), refuses = (\<lambda>q r. False)\<rparr>"
  let ?df = "\<lparr>columns = [''id'', ''name''], rows = []\<rparr>"
  let ?st = "\<lparr>executed = [], commits = 0, log = [], invoked = []\<rparr>"
  have norows: "rows ?df = []"
    by simp
  from import_func_no_rows [OF norows, of ?d "''rad''" ?st]
  show ?thesis
    by simp
qed

section \<open>Properties of the orchestrator\<close>


lemma read_csvs_fst: "fst (read_csvs rd fs st) = list_all (\<lambda>(path, done, failed). rd path) fs"
  by (induction rd fs st rule: read_csvs.induct) simp_all











lemmas run_simps = import_all_def import_sequence_def run_importer_def reshape_def
  import_func_def Let_def
  project_def select_columns_def select_cells_def replace_null_def empty_frame_def
  insert_query_def log_and_raise_def fresh_run_def




text \<open>
  An importer that assigns the frame to its labels raises as soon as its extract is
  readable, and executes no insert and no commit in any case.
\<close>

lemma frame_importer_raises:
  assumes "assigns_frame i"
    and "list_all (\<lambda>(path, done, failed). readable e path) (extracts i)"
  shows "fst (run_importer e i st) = Inl ReshapeError"
proof -
  let ?st0 = "st\<lparr>invoked := invoked st @ [i]\<rparr>"
  obtain st1 where "read_csvs (readable e) (extracts i) ?st0 = (True, st1)"
    using read_csvs_fst [of "readable e" "extracts i" ?st0] assms(2)
    by (cases "read_csvs (readable e) (extracts i) ?st0") simp
  with assms(1) show ?thesis
    by (simp add: run_importer_def reshape_def)
qed

lemma read_csvs_executed:
  "executed (snd (read_csvs rd fs st)) = executed st \<and> commits (snd (read_csvs rd fs st)) = commits st"
  by (induction rd fs st rule: read_csvs.induct) simp_all

lemma frame_importer_loads_nothing:
  assumes "assigns_frame i"
  shows "executed (snd (run_importer e i st)) = executed st \<and>
    commits (snd (run_importer e i st)) = commits st"
proof -
  let ?st0 = "st\<lparr>invoked := invoked st @ [i]\<rparr>"
  obtain ok st1 where r: "read_csvs (readable e) (extracts i) ?st0 = (ok, st1)"
    by (cases "read_csvs (readable e) (extracts i) ?st0")
  then have "executed st1 = executed st \<and> commits st1 = commits st"
    using read_csvs_executed [of "readable e" "extracts i" ?st0] by simp
  with r assms show ?thesis
    by (cases ok) (simp_all add: run_importer_def reshape_def)
qed





section \<open>Properties of the melters\<close>

lemma str_split_no_delim: "d \<notin> set x \<Longrightarrow> str_split d x = [x]"
  by (induction x) auto

lemma str_split_append:
  "d \<notin> set x \<Longrightarrow> str_split d (x @ d # rest) = x # str_split d rest"
  by (induction x) auto

lemma str_split_join:
  assumes "xs \<noteq> []" and "\<forall>x \<in> set xs. d \<notin> set x"
  shows "str_split d (str_join [d] xs) = xs"
  using assms
proof (induction "[d]" xs rule: str_join.induct)
  case 1
  then show ?case by simp
next
  case (2 x)
  then show ?case by (simp add: str_split_no_delim)
next
  case (3 x y ys)
  then show ?case by (simp add: str_split_append)
qed

lemma split_join_nonempty:
  assumes "\<forall>x \<in> set xs. d \<notin> set x"
  shows "filter (\<lambda>v. v \<noteq> []) (str_split d (str_join [d] xs)) = filter (\<lambda>v. v \<noteq> []) xs"
proof (cases xs)
  case Nil
  then show ?thesis by simp
next
  case (Cons x xs')
  with assms show ?thesis
    using str_split_join [of xs d] by simp
qed

lemma explode_row_values:
  assumes "\<forall>v \<in> set (category_values cols names row). CHR ''|'' \<notin> set v"
  shows "explode_row cols names i row =
    map (Pair i) (filter (\<lambda>v. v \<noteq> []) (category_values cols names row))"
  using split_join_nonempty [OF assms] by (simp add: explode_row_def)

lemma melt_rows_of_id:
  assumes "\<forall>row \<in> set rs. \<forall>v \<in> set (category_values cols names row). CHR ''|'' \<notin> set v"
  shows "map snd (filter (\<lambda>(p, v). p = k)
      (concat (map (\<lambda>(i, row). explode_row cols names (i + 1) row) (enumerate n rs)))) =
    (if n < k \<and> k < n + 1 + length rs
     then filter (\<lambda>v. v \<noteq> []) (category_values cols names (rs ! (k - (n + 1)))) else [])"
  using assms
proof (induction rs arbitrary: n)
  case Nil
  have "\<not> (n < k \<and> k < n + 1)"
    by arith
  then show ?case
    by auto
next
  case (Cons r rs)
  have here: "map snd (filter (\<lambda>(p, v). p = k) (explode_row cols names (n + 1) r)) =
      (if k = n + 1 then filter (\<lambda>v. v \<noteq> []) (category_values cols names r) else [])"
    using Cons.prems by (simp add: explode_row_values filter_map comp_def)
  have rest: "map snd (filter (\<lambda>(p, v). p = k)
      (concat (map (\<lambda>(i, row). explode_row cols names (i + 1) row) (enumerate (Suc n) rs)))) =
    (if Suc n < k \<and> k < Suc n + 1 + length rs
     then filter (\<lambda>v. v \<noteq> []) (category_values cols names (rs ! (k - (Suc n + 1)))) else [])"
    using Cons.IH [of "Suc n"] Cons.prems by simp
  show ?case
  proof (cases "k = n + 1")
    case True
    with here rest show ?thesis by simp
  next
    case False
    have idx: "k - (n + 1) - 1 = k - (Suc n + 1)"
      by arith
    from False have "(n < k \<and> k < n + 1 + length (r # rs)) = (Suc n < k \<and> k < Suc n + 1 + length rs)"
      by auto
    moreover from False have "n < k \<Longrightarrow> (r # rs) ! (k - (n + 1)) = rs ! (k - (Suc n + 1))"
      using idx by (simp add: nth_Cons')
    ultimately show ?thesis
      using False here rest by auto
  qed
qed


text \<open>
  The budget melter, on an extract whose sanitized column names are distinct and whose
  category values do not contain the delimiter \<^verbatim>\<open>|\<close>: the output rows that carry the id
  of an input row are, in column order, that row's category values that are neither
  missing nor the empty text.
\<close>

lemma melt_budget_rad_rows:
  assumes "distinct (map sanitize_name (columns raw))"
    and "\<forall>row \<in> set (rows raw). \<forall>v \<in> set (category_values
             (rad_columns (map sanitize_name (columns raw))) (map sanitize_name (columns raw)) row).
             CHR ''|'' \<notin> set v"
    and "i < length (rows raw)"
  shows "\<exists>out. melt_budget_rad raw = Inr out \<and>
    map snd (filter (\<lambda>(p, v). p = i + 1) out) =
    filter (\<lambda>v. v \<noteq> []) (category_values
      (rad_columns (map sanitize_name (columns raw))) (map sanitize_name (columns raw)) (rows raw ! i))"
proof -
  from assms(3) have "rows raw \<noteq> []"
    by auto
  with assms(1) have "melt_budget_rad raw =
      Inr (melt (rad_columns (map sanitize_name (columns raw))) (sanitize_columns raw))"
    by (simp add: melt_budget_rad_def melt_frame_def sanitize_columns_def Let_def)
  moreover have "map snd (filter (\<lambda>(p, v). p = i + 1)
      (melt (rad_columns (map sanitize_name (columns raw))) (sanitize_columns raw))) =
    filter (\<lambda>v. v \<noteq> []) (category_values
      (rad_columns (map sanitize_name (columns raw))) (map sanitize_name (columns raw)) (rows raw ! i))"
    using melt_rows_of_id [OF assms(2), of "i + 1" 0] assms(3)
    by (simp add: melt_def sanitize_columns_def)
  ultimately show ?thesis
    by simp
qed

text \<open>
  The journal-entry melter raises on every extract; and the test for \<^verbatim>\<open>RAD\<close> that
  follows is made on names already in lower case, so it would pick no column.
\<close>

lemma sanitized_no_upper_R: "CHR ''R'' \<notin> set (sanitize_name s)"
proof
  assume "CHR ''R'' \<in> set (sanitize_name s)"
  with canonical_sanitize_name [of s] have "lower_char (CHR ''R'') = CHR ''R''"
    by (auto simp: canonical_name_def list_all_iff)
  moreover have "lower_char (CHR ''R'') = CHR ''r''"
    by code_simp
  ultimately show False
    by simp
qed

lemma RAD_columns_sanitized: "RAD_columns (map sanitize_name names) = []"
proof -
  have "\<not> sublist ''RAD'' (sanitize_name s)" for s
    using set_mono_sublist [of "''RAD''" "sanitize_name s"] sanitized_no_upper_R [of s]
    by auto
  then show ?thesis
    by (simp add: RAD_columns_def)
qed


lemma melt_journal_entry_rad_raises: "melt_journal_entry_rad raw = Inl ReshapeError"
  by (simp add: melt_journal_entry_rad_def assign_frame_to_columns_def)

text \<open>
  C3. On a journal-entry extract whose row has one category value, \<^verbatim>\<open>RAD 1\<close> = 10, the
  journal-entry melter emits no row: \<^verbatim>\<open>_import_journal_entry\<close> raises at line 283, and
  no sanitized column name contains \<^verbatim>\<open>RAD\<close>. The budget melter emits the two rows of a
  budget row with the category values 10, missing and 20.
\<close>

theorem melt_journal_entry_rad_slip:
  "melt_journal_entry_rad
     \<lparr>columns = [''Entry ID'', ''Accounting Date'', ''RAD 1'', ''RAD 2''],
      rows = [[Some ''7'', Some ''01/31/2024'', Some ''10'', None]]\<rparr> = Inl ReshapeError \<and>
   RAD_columns (columns (sanitize_columns
     \<lparr>columns = [''Entry ID'', ''Accounting Date'', ''RAD 1'', ''RAD 2''],
      rows = [[Some ''7'', Some ''01/31/2024'', Some ''10'', None]]\<rparr>)) = [] \<and>
   melt_budget_rad
     \<lparr>columns = [''Budget ID'', ''RAD 1'', ''RAD 2'', ''RAD 3'', ''RAD Description''],
      rows = [[Some ''7'', Some ''10'', None, Some ''20'', Some ''x'']]\<rparr> =
     Inr [(1, ''10''), (1, ''20'')]"
proof -
  have names: "sanitize_name ''Budget ID'' = ''budget_id''" "sanitize_name ''RAD 1'' = ''rad_1''"
    "sanitize_name ''RAD 2'' = ''rad_2''" "sanitize_name ''RAD 3'' = ''rad_3''"
    "sanitize_name ''RAD Description'' = ''rad_description''"
    by code_simp+
  have cols: "rad_columns [''budget_id'', ''rad_1'', ''rad_2'', ''rad_3'', ''rad_description''] =
      [''rad_1'', ''rad_2'', ''rad_3'']"
    by (simp add: rad_columns_def sublist_Cons_right)
  have budget: "melt_budget_rad
     \<lparr>columns = [''Budget ID'', ''RAD 1'', ''RAD 2'', ''RAD 3'', ''RAD Description''],
      rows = [[Some ''7'', Some ''10'', None, Some ''20'', Some ''x'']]\<rparr> =
     Inr [(1, ''10''), (1, ''20'')]"
    by (simp add: melt_budget_rad_def melt_frame_def Let_def sanitize_columns_def names cols
        melt_def explode_row_def category_values_def select_cells_def)
  have journal: "RAD_columns (columns (sanitize_columns
     \<lparr>columns = [''Entry ID'', ''Accounting Date'', ''RAD 1'', ''RAD 2''],
      rows = [[Some ''7'', Some ''01/31/2024'', Some ''10'', None]]\<rparr>)) = []"
    using RAD_columns_sanitized [of "[''Entry ID'', ''Accounting Date'', ''RAD 1'', ''RAD 2'']"]
    by (simp add: sanitize_columns_def del: list.map)
  show ?thesis
    using budget journal
    by (simp add: melt_journal_entry_rad_def assign_frame_to_columns_def)
qed

section \<open>Collisions of column names\<close>

text \<open>
  C4, as the code has it. \<^verbatim>\<open>Util.sanitize_columns\<close> has no check and raises nothing: it
  renames every column to its sanitized name and keeps all columns and their cells in
  place, so two source columns whose names sanitize to the same name are both kept, under
  that one name.
\<close>

theorem sanitize_columns_keeps_collisions:
  "columns (sanitize_columns df) = map sanitize_name (columns df) \<and>
   rows (sanitize_columns df) = rows df \<and>
   (i < j \<and> j < length (columns df) \<and>
      sanitize_name (columns df ! i) = sanitize_name (columns df ! j) \<longrightarrow>
    columns (sanitize_columns df) ! i = columns (sanitize_columns df) ! j \<and>
    \<not> distinct (columns (sanitize_columns df)))"
proof -
  have "\<not> distinct (map sanitize_name (columns df))"
    if "i < j" "j < length (columns df)"
      "sanitize_name (columns df ! i) = sanitize_name (columns df ! j)"
  proof
    assume d: "distinct (map sanitize_name (columns df))"
    from that have "map sanitize_name (columns df) ! i = map sanitize_name (columns df) ! j"
      by simp
    moreover from that have "i < length (map sanitize_name (columns df))"
      "j < length (map sanitize_name (columns df))"
      by simp_all
    ultimately have "i = j"
      using d nth_eq_iff_index_eq by blast
    with that show False
      by simp
  qed
  then show ?thesis
    by (auto simp: sanitize_columns_def)
qed

theorem sanitize_columns_keeps_collisions_witness:
  "(0::nat) < 1 \<and> 1 < length (columns \<lparr>columns = [''A B'', ''a_b''], rows = [[Some ''1'', Some ''2'']]\<rparr>) \<and>
   sanitize_name ''A B'' = sanitize_name ''a_b'' \<and>
   \<not> distinct (columns (sanitize_columns
     \<lparr>columns = [''A B'', ''a_b''], rows = [[Some ''1'', Some ''2'']]\<rparr>))"
proof -
  have same: "sanitize_name ''A B'' = sanitize_name ''a_b''"
    by code_simp
  from sanitize_columns_keeps_collisions
    [of "\<lparr>columns = [''A B'', ''a_b''], rows = [[Some ''1'', Some ''2'']]\<rparr>" 0 1] same
  show ?thesis
    by simp
qed

text \<open>
  C4 as stated fails: the distinct names \<^verbatim>\<open>A B\<close> and \<^verbatim>\<open>a_b\<close> both become \<^verbatim>\<open>a_b\<close>, and
  the frame comes back with two columns of that name.
\<close>

theorem sanitize_columns_collision_counterexample:
  "''A B'' \<noteq> ''a_b'' \<and>
   sanitize_columns \<lparr>columns = [''A B'', ''a_b''], rows = [[Some ''1'', Some ''2'']]\<rparr> =
     \<lparr>columns = [''a_b'', ''a_b''], rows = [[Some ''1'', Some ''2'']]\<rparr>"
proof -
  have "sanitize_name ''A B'' = ''a_b''" "sanitize_name ''a_b'' = ''a_b''"
    by code_simp+
  then show ?thesis
    by (simp add: sanitize_columns_def)
qed

section \<open>The type coercions\<close>

text \<open>
  C5. No identifier is coerced. On a budget extract with the account number 123.0 and on a
  journal-entry extract with the identifiers 1.0, 10.0 and 123.0 the importer raises at
  the assignment of the labels (lines 215 and 236), before the coercions of lines 220 and
  254 to 266; and in no run does either importer execute an insert.
\<close>

theorem identifier_coercion_never_reached:
  "import_budget_frame
     \<lparr>columns = [''Budget ID'', ''Business Unit ID'', ''Account No'', ''Amount''],
      rows = [[Some ''7'', Some ''10'', Some ''123.0'', Some ''500'']]\<rparr> = Inl ReshapeError \<and>
   import_journal_entry_frame
     \<lparr>columns = [''Company ID'', ''Entry ID'', ''Business Unit ID'', ''Account No'', ''Amount'',
                 ''Accounting Date'', ''Remarks''],
      rows = [[Some ''1.0'', Some ''7'', Some ''10.0'', Some ''123.0'', Some ''500'',
               Some ''01/31/2024'', None]]\<rparr> = Inl ReshapeError \<and>
   executed (snd (run_importer e Import_budget st)) = executed st \<and>
   executed (snd (run_importer e Import_journal_entry_rad st)) = executed st"
  using frame_importer_loads_nothing [of Import_budget e st]
    frame_importer_loads_nothing [of Import_journal_entry_rad e st]
  by (simp add: import_budget_frame_def import_journal_entry_frame_def assign_frame_to_columns_def)

text \<open>
  C8. No amount is coerced. On a budget extract with the amount 1,234.50 the importer
  raises at line 215, before the coercion of line 221; the run in which the budget
  extract is the only readable one ends there, with no insert executed.
\<close>

theorem amount_coercion_never_reached:
  "import_budget_frame
     \<lparr>columns = [''Budget ID'', ''Business Unit ID'', ''Account No'', ''Amount''],
      rows = [[Some ''7'', Some ''10'', Some ''1000'', Some ''1,234.50'']]\<rparr> = Inl ReshapeError \<and>
   import_all
     \<lparr>readable = (\<lambda>p. p = ''./source/Budget.csv''),
      reshaped = (\<lambda>i. Inl ReshapeError),
      db = \<lparr>information_schema = (\<lambda>t. [''id'', ''budget_id'', ''business_unit_id'',
              ''account_no'', ''amount'']),
            refuses = (\<lambda>q r. False)\<rparr>\<rparr>
     fresh_run =
   \<lparr>executed = [], commits = 0,
    log = [Exception ''Error Account CSV'' ReadError,
           Exception ''Error reading RAD CSV'' ReadError,
           Exception ''Error reading RAD CSV'' ReadError,
           Exception ''Error reading Business Unit CSV'' ReadError,
           Exception ''Error RAD Account CSV'' ReadError,
           Info ''Budget data read from CSV.'',
           Exception ''Error during import_all'' ReshapeError],
    invoked = [Import_account, Import_rad_type, Import_rad, Import_business_unit,
               Import_account_rad_type, Import_budget]\<rparr>"
  by (simp add: run_simps import_budget_frame_def assign_frame_to_columns_def)

end
